theory Spec2Isabelle
  imports Main "HOL-Library.Word"
begin

unbundle bit_operations_syntax

section \<open>Text helpers\<close>

text \<open>
  Python strings are modelled as \<open>string\<close> (a list of bytes, the UTF-8 form that
  \<open>.encode()\<close> produces); file contents read with mode \<open>'rb'\<close> are byte lists too.
\<close>

definition digit_char :: "nat \<Rightarrow> char" where
  "digit_char d = ''0123456789'' ! d"

text \<open>\<open>str(n)\<close> for a non-negative integer.\<close>

fun str_nat :: "nat \<Rightarrow> string" where
  "str_nat n = (if n < 10 then [digit_char n] else str_nat (n div 10) @ [digit_char (n mod 10)])"

declare str_nat.simps [simp del]

text \<open>The \<open>%0wd\<close> formatting used by \<open>datetime\<close>: zero padding on the left up to width \<open>w\<close>.\<close>

definition zero_pad :: "nat \<Rightarrow> nat \<Rightarrow> string" where
  "zero_pad w n = replicate (w - length (str_nat n)) (CHR ''0'') @ str_nat n"

text \<open>\<open>sep.join(xs)\<close>.\<close>

fun join :: "string \<Rightarrow> string list \<Rightarrow> string" where
  "join sep [] = []"
| "join sep [x] = x"
| "join sep (x # y # ys) = x @ sep @ join sep (y # ys)"

text \<open>\<open>pat in s\<close> on strings: \<open>pat\<close> occurs in \<open>s\<close> as a contiguous piece.\<close>

primrec contains_str :: "string \<Rightarrow> string \<Rightarrow> bool" where
  "contains_str pat [] = (pat = [])"
| "contains_str pat (c # cs) = (take (length pat) (c # cs) = pat \<or> contains_str pat cs)"

definition nl :: string where
  "nl = [CHR 0x0A]"

definition dq :: string where
  "dq = [CHR 0x22]"

definition sq :: string where
  "sq = [CHR 0x27]"

section \<open>Dictionaries with insertion order\<close>

text \<open>
  A Python \<open>dict\<close> (and the JSON object it is saved as) keeps its keys in insertion
  order, and \<open>status\<close> and \<open>branch\<close> list keys in that order. A dictionary is therefore an
  association list; \<open>d[k] = v\<close> overwrites in place when \<open>k\<close> is present and appends
  otherwise.
\<close>

type_synonym ('k, 'v) dict = "('k \<times> 'v) list"

fun dict_set :: "('k, 'v) dict \<Rightarrow> 'k \<Rightarrow> 'v \<Rightarrow> ('k, 'v) dict" where
  "dict_set [] k v = [(k, v)]"
| "dict_set ((k', v') # d) k v = (if k' = k then (k, v) # d else (k', v') # dict_set d k v)"

definition dict_keys :: "('k, 'v) dict \<Rightarrow> 'k list" where
  "dict_keys d = map fst d"

text \<open>\<open>k in d\<close>.\<close>

definition dict_mem :: "'k \<Rightarrow> ('k, 'v) dict \<Rightarrow> bool" where
  "dict_mem k d = (k \<in> set (dict_keys d))"

text \<open>\<open>d.get(k)\<close>: \<open>None\<close> when the key is absent.\<close>

definition dict_get :: "('k, 'v) dict \<Rightarrow> 'k \<Rightarrow> 'v option" where
  "dict_get d k = map_of d k"

text \<open>\<open>d.get(k, dflt)\<close>.\<close>

definition dict_get_default :: "('k, 'v) dict \<Rightarrow> 'k \<Rightarrow> 'v \<Rightarrow> 'v" where
  "dict_get_default d k dflt = (case map_of d k of None \<Rightarrow> dflt | Some v \<Rightarrow> v)"

section \<open>SHA-256\<close>

text \<open>
  \<open>hashlib.sha256(data).hexdigest()\<close> is the SHA-256 function of FIPS 180-4 on the bytes
  of \<open>data\<close>, rendered as 64 lower-case hexadecimal digits.
\<close>

type_synonym w32 = "32 word"

definition rotr :: "nat \<Rightarrow> w32 \<Rightarrow> w32" where
  "rotr n x = (drop_bit n x) OR (push_bit (32 - n) x)"

definition ch :: "w32 \<Rightarrow> w32 \<Rightarrow> w32 \<Rightarrow> w32" where
  "ch x y z = (x AND y) XOR (NOT x AND z)"

definition maj :: "w32 \<Rightarrow> w32 \<Rightarrow> w32 \<Rightarrow> w32" where
  "maj x y z = (x AND y) XOR (x AND z) XOR (y AND z)"

definition big_sigma0 :: "w32 \<Rightarrow> w32" where
  "big_sigma0 x = rotr 2 x XOR rotr 13 x XOR rotr 22 x"

definition big_sigma1 :: "w32 \<Rightarrow> w32" where
  "big_sigma1 x = rotr 6 x XOR rotr 11 x XOR rotr 25 x"

definition small_sigma0 :: "w32 \<Rightarrow> w32" where
  "small_sigma0 x = rotr 7 x XOR rotr 18 x XOR drop_bit 3 x"

definition small_sigma1 :: "w32 \<Rightarrow> w32" where
  "small_sigma1 x = rotr 17 x XOR rotr 19 x XOR drop_bit 10 x"

text \<open>The round constants, four rounds to a row.\<close>

definition sha256_k :: "w32 list" where
  "sha256_k = concat
    [[0x428a2f98, 0x71374491, 0xb5c0fbcf, 0xe9b5dba5],
     [0x3956c25b, 0x59f111f1, 0x923f82a4, 0xab1c5ed5],
     [0xd807aa98, 0x12835b01, 0x243185be, 0x550c7dc3],
     [0x72be5d74, 0x80deb1fe, 0x9bdc06a7, 0xc19bf174],
     [0xe49b69c1, 0xefbe4786, 0x0fc19dc6, 0x240ca1cc],
     [0x2de92c6f, 0x4a7484aa, 0x5cb0a9dc, 0x76f988da],
     [0x983e5152, 0xa831c66d, 0xb00327c8, 0xbf597fc7],
     [0xc6e00bf3, 0xd5a79147, 0x06ca6351, 0x14292967],
     [0x27b70a85, 0x2e1b2138, 0x4d2c6dfc, 0x53380d13],
     [0x650a7354, 0x766a0abb, 0x81c2c92e, 0x92722c85],
     [0xa2bfe8a1, 0xa81a664b, 0xc24b8b70, 0xc76c51a3],
     [0xd192e819, 0xd6990624, 0xf40e3585, 0x106aa070],
     [0x19a4c116, 0x1e376c08, 0x2748774c, 0x34b0bcb5],
     [0x391c0cb3, 0x4ed8aa4a, 0x5b9cca4f, 0x682e6ff3],
     [0x748f82ee, 0x78a5636f, 0x84c87814, 0x8cc70208],
     [0x90befffa, 0xa4506ceb, 0xbef9a3f7, 0xc67178f2]]"

definition sha256_init :: "w32 list" where
  "sha256_init =
    [0x6a09e667, 0xbb67ae85, 0x3c6ef372, 0xa54ff53a, 0x510e527f, 0x9b05688c, 0x1f83d9ab, 0x5be0cd19]"

type_synonym byte = "8 word"

text \<open>A 32-bit word, and a 64-bit length, as big-endian bytes.\<close>

definition be32 :: "w32 \<Rightarrow> byte list" where
  "be32 w = [ucast (drop_bit 24 w), ucast (drop_bit 16 w), ucast (drop_bit 8 w), ucast w]"

definition be64 :: "64 word \<Rightarrow> byte list" where
  "be64 w = map (\<lambda>i. ucast (drop_bit (8 * i) w)) [7, 6, 5, 4, 3, 2, 1, 0]"

text \<open>
  Padding: the byte \<open>0x80\<close>, zero bytes up to 56 modulo 64, then the length of the message
  in bits as 8 big-endian bytes.
\<close>

definition sha256_pad :: "byte list \<Rightarrow> byte list" where
  "sha256_pad bs =
     bs @ [0x80] @ replicate ((119 - length bs mod 64) mod 64) 0 @ be64 (8 * of_nat (length bs))"

fun to_words :: "byte list \<Rightarrow> w32 list" where
  "to_words (a # b # c # d # bs) =
     (push_bit 24 (ucast a) OR push_bit 16 (ucast b) OR push_bit 8 (ucast c) OR ucast d)
       # to_words bs"
| "to_words _ = []"

fun blocks :: "w32 list \<Rightarrow> w32 list list" where
  "blocks [] = []"
| "blocks (w # ws) = take 16 (w # ws) # blocks (drop 16 (w # ws))"

text \<open>The message schedule: \<open>k\<close> further words appended to the words so far.\<close>

primrec schedule :: "nat \<Rightarrow> w32 list \<Rightarrow> w32 list" where
  "schedule 0 ws = ws"
| "schedule (Suc k) ws =
     schedule k (ws @ [small_sigma1 (ws ! (length ws - 2)) + ws ! (length ws - 7)
                       + small_sigma0 (ws ! (length ws - 15)) + ws ! (length ws - 16)])"

text \<open>One round on the working variables \<open>[a, b, c, d, e, f, g, h]\<close>.\<close>

fun sha256_round :: "w32 \<times> w32 \<Rightarrow> w32 list \<Rightarrow> w32 list" where
  "sha256_round (k, w) [a, b, c, d, e, f, g, h] =
     (let t1 = h + big_sigma1 e + ch e f g + k + w;
          t2 = big_sigma0 a + maj a b c
      in [t1 + t2, a, b, c, d + t1, e, f, g])"
| "sha256_round _ v = v"

definition sha256_block :: "w32 list \<Rightarrow> w32 list \<Rightarrow> w32 list" where
  "sha256_block blk hs = map2 (+) hs (fold sha256_round (zip sha256_k (schedule 48 blk)) hs)"

definition hex_char :: "nat \<Rightarrow> char" where
  "hex_char d = ''0123456789abcdef'' ! d"

definition hex_byte :: "byte \<Rightarrow> string" where
  "hex_byte b = [hex_char (unat (drop_bit 4 b)), hex_char (unat (b AND 15))]"

definition sha256_digest :: "string \<Rightarrow> byte list" where
  "sha256_digest data =
     concat (map be32
       (fold sha256_block (blocks (to_words (sha256_pad (map of_char data)))) sha256_init))"

definition sha256_hex :: "string \<Rightarrow> string" where
  "sha256_hex data = concat (map hex_byte (sha256_digest data))"

section \<open>The clock\<close>

text \<open>
  \<open>datetime.now()\<close> reads the clock; a reading is passed to the model as an argument.
  \<open>str(dt)\<close> is \<open>dt.isoformat(sep=' ')\<close>, and \<open>isoformat\<close> leaves the microseconds out
  when they are zero.
\<close>

record datetime =
  year :: nat
  month :: nat
  day :: nat
  hour :: nat
  minute :: nat
  second :: nat
  microsecond :: nat

definition isoformat_sep :: "string \<Rightarrow> datetime \<Rightarrow> string" where
  "isoformat_sep sep dt =
     zero_pad 4 (year dt) @ ''-'' @ zero_pad 2 (month dt) @ ''-'' @ zero_pad 2 (day dt) @ sep @
     zero_pad 2 (hour dt) @ '':'' @ zero_pad 2 (minute dt) @ '':'' @ zero_pad 2 (second dt) @
     (if microsecond dt = 0 then [] else ''.'' @ zero_pad 6 (microsecond dt))"

definition datetime_str :: "datetime \<Rightarrow> string" where
  "datetime_str dt = isoformat_sep '' '' dt"

definition isoformat :: "datetime \<Rightarrow> string" where
  "isoformat dt = isoformat_sep ''T'' dt"

section \<open>Repository state\<close>

text \<open>
  The whole repository state is the JSON object of \<open>.git/index.json\<close>, with the keys
  \<open>staged\<close>, \<open>commits\<close>, \<open>branches\<close> and \<open>current_branch\<close>. A commit is the dictionary
  that \<open>commit\<close> builds, with the keys \<open>hash\<close>, \<open>message\<close>, \<open>author\<close>, \<open>date\<close>,
  \<open>files\<close> and \<open>branch\<close>. A branch that has no commit yet holds \<open>None\<close> (JSON \<open>null\<close>).
\<close>

record commit_obj =
  c_hash :: string
  c_message :: string
  c_author :: string
  c_date :: string
  c_files :: "(string, string) dict"
  c_branch :: string

record index =
  staged :: "(string, string) dict"
  commits :: "commit_obj list"
  branches :: "(string, string option) dict"
  current_branch :: string

text \<open>The commit as the dictionary it is in the source: its keys and their values.\<close>

datatype json = JString string | JObject "(string, string) dict"

definition commit_dict :: "commit_obj \<Rightarrow> (string, json) dict" where
  "commit_dict c =
     [(''hash'', JString (c_hash c)),
      (''message'', JString (c_message c)),
      (''author'', JString (c_author c)),
      (''date'', JString (c_date c)),
      (''files'', JObject (c_files c)),
      (''branch'', JString (c_branch c))]"

text \<open>The state that \<open>init\<close> writes.\<close>

definition init_index :: index where
  "init_index = \<lparr>staged = [], commits = [], branches = [(''main'', None)],
                 current_branch = ''main''\<rparr>"

section \<open>The working tree\<close>

text \<open>
  The files outside \<open>index.json\<close> are the environment. \<open>repo_root\<close> is the directory that
  holds \<open>.git\<close>; \<open>walk\<close> is what \<open>os.walk(repo_root)\<close> yields, each step as the directory
  (relative to \<open>repo_root\<close>, empty for the root itself) and the names of its files;
  \<open>disk\<close> says what a full path names: nothing, a file with its bytes, or a directory.
  Paths are POSIX paths.
\<close>

datatype node = File string | Directory

record worktree =
  repo_root :: string
  walk :: "(string \<times> string list) list"
  disk :: "string \<Rightarrow> node option"

text \<open>\<open>os.path.join(root, p)\<close> for a root that does not end in a slash.\<close>

definition path_join :: "string \<Rightarrow> string \<Rightarrow> string" where
  "path_join root p = (if take 1 p = ''/'' then p else root @ ''/'' @ p)"

text \<open>The \<open>root\<close> of a step of \<open>os.walk\<close>, as the absolute path the loop tests.\<close>

definition walk_root :: "worktree \<Rightarrow> string \<Rightarrow> string" where
  "walk_root wt sub = (if sub = [] then repo_root wt else repo_root wt @ ''/'' @ sub)"

text \<open>\<open>os.path.relpath(os.path.join(root, file), repo_root)\<close>.\<close>

definition rel_path :: "string \<Rightarrow> string \<Rightarrow> string" where
  "rel_path sub file = (if sub = [] then file else sub @ ''/'' @ file)"

section \<open>Errors\<close>

text \<open>
  Every operation returns a string. The early returns and the exceptions that the
  operations catch and turn into text are the \<open>Inl\<close> results of the model;
  \<open>message_of\<close> is the text returned.
\<close>

datatype error =
    NotARepository
  | PathNotFound string
  | NothingToCommit
  | BranchExists string
  | UnknownRef string
  | UncommittedChanges
  | KeyError string
  | IsADirectoryError string

text \<open>
  \<open>repr(s)\<close> of a string, which \<open>str(e)\<close> puts around the key of a \<open>KeyError\<close> and the
  path of an \<open>OSError\<close>: double quotes when the string has an apostrophe and no double
  quote, single quotes otherwise; the quote in use and the backslash are escaped, and so
  are the control characters. Bytes from 128 on stand for printable characters and stay.
\<close>

definition bs :: char where
  "bs = CHR 0x5C"

definition repr_quote :: "string \<Rightarrow> char" where
  "repr_quote s =
     (if CHR 0x27 \<in> set s \<and> CHR 0x22 \<notin> set s then CHR 0x22 else CHR 0x27)"

definition repr_char :: "char \<Rightarrow> char \<Rightarrow> string" where
  "repr_char q c =
     (if c = q \<or> c = bs then [bs, c]
      else if c = CHR 0x09 then [bs, CHR ''t'']
      else if c = CHR 0x0A then [bs, CHR ''n'']
      else if c = CHR 0x0D then [bs, CHR ''r'']
      else if (of_char c :: nat) < 32 \<or> (of_char c :: nat) = 127
        then [bs, CHR ''x''] @ hex_byte (of_char c)
      else [c])"

definition py_repr :: "string \<Rightarrow> string" where
  "py_repr s = [repr_quote s] @ concat (map (repr_char (repr_quote s)) s) @ [repr_quote s]"

fun message_of :: "error \<Rightarrow> string" where
  "message_of NotARepository = ''fatal: not a git repository''"
| "message_of (PathNotFound path) =
     ''fatal: pathspec '' @ sq @ path @ sq @ '' did not match any files''"
| "message_of NothingToCommit = ''nothing to commit, working tree clean''"
| "message_of (BranchExists name) =
     ''fatal: A branch named '' @ sq @ name @ sq @ '' already exists.''"
| "message_of (UnknownRef name) =
     ''error: pathspec '' @ sq @ name @ sq @ '' did not match any file(s) known to git''"
| "message_of UncommittedChanges =
     ''error: Your local changes would be overwritten by checkout.'' @ nl @
     ''Please commit your changes first.''"
| "message_of (KeyError k) = py_repr k"
| "message_of (IsADirectoryError path) = ''[Errno 21] Is a directory: '' @ py_repr path"

type_synonym result = "error + string"

definition output_text :: "result \<Rightarrow> string" where
  "output_text r = (case r of Inl e \<Rightarrow> message_of e | Inr text \<Rightarrow> text)"

section \<open>Operations\<close>

text \<open>
  An operation takes the repository as \<open>index option\<close> (\<open>None\<close>: no \<open>.git\<close> is found, and
  \<open>load_index\<close> raises) and returns its result with the repository as it is afterwards.
  An operation that returns before \<open>save_index\<close> leaves the repository as it was.
\<close>

definition committed :: "index \<Rightarrow> string \<Rightarrow> bool" where
  "committed index p =
     (commits index \<noteq> [] \<and> dict_mem p (c_files (last (commits index))))"

definition get_untracked_files :: "worktree \<Rightarrow> index \<Rightarrow> string list" where
  "get_untracked_files wt index =
     concat (map (\<lambda>(sub, files).
        if contains_str ''.git'' (walk_root wt sub) then []
        else filter (\<lambda>p. \<not> dict_mem p (staged index) \<and> \<not> committed index p)
               (map (rel_path sub) files))
       (walk wt))"

definition status :: "worktree \<Rightarrow> index option \<Rightarrow> result \<times> index option" where
  "status wt repo =
     (case repo of
        None \<Rightarrow> (Inl NotARepository, None)
      | Some index \<Rightarrow>
          (let untracked = get_untracked_files wt index in
           (Inr (join nl
              ([''On branch '' @ current_branch index]
               @ (if commits index = [] then [nl @ ''No commits yet'' @ nl] else [])
               @ (if staged index \<noteq> [] then
                    [nl @ ''Changes to be committed:'',
                     ''  (use '' @ dq @ ''git reset HEAD <file>...'' @ dq @ '' to unstage)'' @ nl]
                    @ map (\<lambda>file. ''        modified:   '' @ file) (dict_keys (staged index))
                  else [])
               @ (if untracked \<noteq> [] then
                    [nl @ ''Untracked files:'',
                     ''  (use '' @ dq @ ''git add <file>...'' @ dq
                       @ '' to include in what will be committed)'' @ nl]
                    @ map (\<lambda>file. ''        '' @ file) untracked
                  else [])
               @ (if staged index = [] \<and> untracked = [] then
                    [nl @ ''nothing to commit, working tree clean'']
                  else []))),
            Some index)))"

text \<open>
  The loop of \<open>add(".")\<close> over the untracked files: a path that is gone is skipped, a
  file is staged under the digest of its bytes, and \<open>open\<close> on a directory raises.
\<close>

fun stage_all :: "worktree \<Rightarrow> string list \<Rightarrow> (string, string) dict \<Rightarrow>
    error + (string, string) dict" where
  "stage_all wt [] st = Inr st"
| "stage_all wt (file # rest) st =
     (case disk wt (path_join (repo_root wt) file) of
        None \<Rightarrow> stage_all wt rest st
      | Some Directory \<Rightarrow> Inl (IsADirectoryError (path_join (repo_root wt) file))
      | Some (File content) \<Rightarrow> stage_all wt rest (dict_set st file (sha256_hex content)))"

definition add :: "worktree \<Rightarrow> string \<Rightarrow> index option \<Rightarrow> result \<times> index option" where
  "add wt path repo =
     (case repo of
        None \<Rightarrow> (Inl NotARepository, None)
      | Some index \<Rightarrow>
          if path = ''.'' then
            (let untracked = get_untracked_files wt index in
             case stage_all wt untracked (staged index) of
               Inl e \<Rightarrow> (Inl e, Some index)
             | Inr st \<Rightarrow>
                 (Inr (''Added '' @ str_nat (length untracked) @ '' files''),
                  Some (index\<lparr>staged := st\<rparr>)))
          else
            (case disk wt (path_join (repo_root wt) path) of
               None \<Rightarrow> (Inl (PathNotFound path), Some index)
             | Some Directory \<Rightarrow>
                 (Inl (IsADirectoryError (path_join (repo_root wt) path)), Some index)
             | Some (File content) \<Rightarrow>
                 (Inr (''Added '' @ sq @ path @ sq @ '' to stage''),
                  Some (index\<lparr>staged := dict_set (staged index) path (sha256_hex content)\<rparr>))))"

text \<open>
  The dictionary that \<open>commit\<close> builds. \<open>now1\<close> is the clock reading inside the hash,
  \<open>now2\<close> the later one stored as the date; \<open>config\<close> is the configuration dictionary.
\<close>

definition new_commit ::
    "(string, string) dict \<Rightarrow> datetime \<Rightarrow> datetime \<Rightarrow> string \<Rightarrow> index \<Rightarrow> commit_obj" where
  "new_commit config now1 now2 message index =
     \<lparr>c_hash = take 8 (sha256_hex (message @ datetime_str now1)),
      c_message = message,
      c_author = dict_get_default config ''user.name'' ''User'' @ '' <''
                 @ dict_get_default config ''user.email'' ''user@example.com'' @ ''>'',
      c_date = isoformat now2,
      c_files = staged index,
      c_branch = current_branch index\<rparr>"

definition commit ::
    "(string, string) dict \<Rightarrow> datetime \<Rightarrow> datetime \<Rightarrow> string \<Rightarrow> index option \<Rightarrow>
     result \<times> index option" where
  "commit config now1 now2 message repo =
     (case repo of
        None \<Rightarrow> (Inl NotARepository, None)
      | Some index \<Rightarrow>
          if staged index = [] then (Inl NothingToCommit, Some index)
          else
            (let c = new_commit config now1 now2 message index in
             (Inr (''['' @ current_branch index @ '' '' @ c_hash c @ ''] '' @ message @ nl
                   @ '' '' @ str_nat (length (c_files c)) @ '' files changed''),
              Some (index\<lparr>commits := commits index @ [c],
                          branches := dict_set (branches index) (current_branch index)
                                        (Some (c_hash c)),
                          staged := []\<rparr>))))"

text \<open>The commits that \<open>log\<close> goes through, in its order, and the lines it makes of one.\<close>

definition log_commits :: "index \<Rightarrow> commit_obj list" where
  "log_commits index = rev (commits index)"

definition log_entry :: "commit_obj \<Rightarrow> string list" where
  "log_entry c =
     [''commit '' @ c_hash c,
      ''Author: '' @ c_author c,
      ''Date:   '' @ c_date c @ nl,
      ''    '' @ c_message c @ nl]"

definition log :: "index option \<Rightarrow> result \<times> index option" where
  "log repo =
     (case repo of
        None \<Rightarrow> (Inl NotARepository, None)
      | Some index \<Rightarrow>
          if commits index = [] then (Inr ''No commits yet'', Some index)
          else (Inr (join nl (concat (map log_entry (log_commits index)))), Some index))"

text \<open>\<open>branch(name)\<close>: the listing when \<open>name\<close> is \<open>None\<close>, the creation otherwise.\<close>

definition branch :: "string option \<Rightarrow> index option \<Rightarrow> result \<times> index option" where
  "branch name repo =
     (case repo of
        None \<Rightarrow> (Inl NotARepository, None)
      | Some index \<Rightarrow>
          (case name of
             None \<Rightarrow>
               (Inr (join nl (map (\<lambda>b. (if b = current_branch index then ''* '' else ''  '') @ b)
                                (dict_keys (branches index)))),
                Some index)
           | Some n \<Rightarrow>
               if dict_mem n (branches index) then (Inl (BranchExists n), Some index)
               else
                 (case dict_get (branches index) (current_branch index) of
                    None \<Rightarrow> (Inl (KeyError (current_branch index)), Some index)
                  | Some current_commit \<Rightarrow>
                      (Inr (''Branch '' @ sq @ n @ sq @ '' created''),
                       Some (index\<lparr>branches := dict_set (branches index) n current_commit\<rparr>)))))"

definition checkout :: "string \<Rightarrow> index option \<Rightarrow> result \<times> index option" where
  "checkout name repo =
     (case repo of
        None \<Rightarrow> (Inl NotARepository, None)
      | Some index \<Rightarrow>
          if \<not> dict_mem name (branches index) then (Inl (UnknownRef name), Some index)
          else if staged index \<noteq> [] then (Inl UncommittedChanges, Some index)
          else
            (Inr (''Switched to branch '' @ sq @ name @ sq),
             Some (index\<lparr>current_branch := name\<rparr>)))"

text \<open>
  In every state that the operations produce from \<open>init_index\<close> the current branch is
  a key of \<open>branches\<close>.
\<close>

definition wf_index :: "index \<Rightarrow> bool" where
  "wf_index index = dict_mem (current_branch index) (branches index)"

section \<open>History as the specification words it\<close>

text \<open>
  What \<open>commit.get('parent')\<close> gives on a commit dictionary, and the commit a branch
  points at.
\<close>

definition commit_parent :: "commit_obj \<Rightarrow> string option" where
  "commit_parent c =
     (case dict_get (commit_dict c) ''parent'' of Some (JString h) \<Rightarrow> Some h | _ \<Rightarrow> None)"

definition head_of :: "index \<Rightarrow> string option" where
  "head_of index =
     (case dict_get (branches index) (current_branch index) of
        Some (Some h) \<Rightarrow> Some h
      | _ \<Rightarrow> None)"

text \<open>
  The history in the words of the specification, to compare \<open>log_commits\<close> with: start at
  the head of the current branch and follow the parent links until none remain. A walk
  visits at most as many commits as there are.
\<close>

fun spec_walk :: "nat \<Rightarrow> commit_obj list \<Rightarrow> string option \<Rightarrow> commit_obj list" where
  "spec_walk 0 cs h = []"
| "spec_walk (Suc n) cs None = []"
| "spec_walk (Suc n) cs (Some h) =
     (case find (\<lambda>c. c_hash c = h) cs of
        None \<Rightarrow> []
      | Some c \<Rightarrow> c # spec_walk n cs (commit_parent c))"

definition spec_log :: "index \<Rightarrow> commit_obj list" where
  "spec_log index = spec_walk (length (commits index)) (commits index) (head_of index)"

section \<open>A sample session\<close>

text \<open>
  A working tree with two files, two clock readings, and the states of a short session:
  \<open>init\<close>, \<open>add a.txt\<close>, \<open>commit first\<close>, then either \<open>add b.txt\<close> on \<open>main\<close>, or
  \<open>branch feature\<close>, \<open>checkout feature\<close>, \<open>add b.txt\<close>, \<open>commit second\<close>,
  \<open>checkout main\<close>.
\<close>

definition demo_tree :: worktree where
  "demo_tree = \<lparr>repo_root = ''/repo'', walk = [([], [''a.txt'', ''b.txt''])],
     disk = map_of [(''/repo/a.txt'', File ''x''), (''/repo/b.txt'', File ''y'')]\<rparr>"

definition demo_t1 :: datetime where
  "demo_t1 = \<lparr>year = 2024, month = 1, day = 2, hour = 3, minute = 4, second = 5,
     microsecond = 6\<rparr>"

definition demo_t2 :: datetime where
  "demo_t2 = \<lparr>year = 2024, month = 1, day = 2, hour = 3, minute = 9, second = 0,
     microsecond = 17\<rparr>"

definition demo_c1 :: commit_obj where
  "demo_c1 = \<lparr>c_hash = take 8 (sha256_hex (''first'' @ datetime_str demo_t1)),
     c_message = ''first'', c_author = ''User <user@example.com>'', c_date = isoformat demo_t1,
     c_files = [(''a.txt'', sha256_hex ''x'')], c_branch = ''main''\<rparr>"

definition demo_c2 :: commit_obj where
  "demo_c2 = \<lparr>c_hash = take 8 (sha256_hex (''second'' @ datetime_str demo_t2)),
     c_message = ''second'', c_author = ''User <user@example.com>'', c_date = isoformat demo_t2,
     c_files = [(''b.txt'', sha256_hex ''y'')], c_branch = ''feature''\<rparr>"

definition demo_first_staged :: index where
  "demo_first_staged = \<lparr>staged = [(''a.txt'', sha256_hex ''x'')], commits = [],
     branches = [(''main'', None)], current_branch = ''main''\<rparr>"

definition demo_committed :: index where
  "demo_committed = \<lparr>staged = [], commits = [demo_c1],
     branches = [(''main'', Some (c_hash demo_c1))], current_branch = ''main''\<rparr>"

definition demo_staged :: index where
  "demo_staged = \<lparr>staged = [(''b.txt'', sha256_hex ''y'')], commits = [demo_c1],
     branches = [(''main'', Some (c_hash demo_c1))], current_branch = ''main''\<rparr>"

definition demo_two_branches :: index where
  "demo_two_branches = \<lparr>staged = [], commits = [demo_c1, demo_c2],
     branches = [(''main'', Some (c_hash demo_c1)), (''feature'', Some (c_hash demo_c2))],
     current_branch = ''main''\<rparr>"

text \<open>
  Another repository whose first commit stages a different file under another author, and
  the tree of \<open>demo_tree\<close> after \<open>a.txt\<close> was edited and \<open>c.txt\<close> created.
\<close>

definition demo_other_staged :: index where
  "demo_other_staged = \<lparr>staged = [(''b.txt'', sha256_hex ''y'')], commits = [],
     branches = [(''main'', None)], current_branch = ''main''\<rparr>"

definition demo_other_config :: "(string, string) dict" where
  "demo_other_config = [(''user.name'', ''Ann''), (''user.email'', ''ann@example.com'')]"

definition demo_tree_edited :: worktree where
  "demo_tree_edited = \<lparr>repo_root = ''/repo'',
     walk = [([], [''a.txt'', ''c.txt'']), (''.git'', [''index.json''])],
     disk = map_of [(''/repo/a.txt'', File ''x edited''), (''/repo/c.txt'', File ''z''),
                    (''/repo/.git/index.json'', File ''{}'')]\<rparr>"

text \<open>
  The session carried on with \<open>commit second\<close> on \<open>main\<close>, so that the last commit holds
  \<open>b.txt\<close> alone, and the tree of \<open>demo_tree\<close> after \<open>a.txt\<close> was edited.
\<close>

definition demo_c2_main :: commit_obj where
  "demo_c2_main = \<lparr>c_hash = take 8 (sha256_hex (''second'' @ datetime_str demo_t2)),
     c_message = ''second'', c_author = ''User <user@example.com>'', c_date = isoformat demo_t2,
     c_files = [(''b.txt'', sha256_hex ''y'')], c_branch = ''main''\<rparr>"

definition demo_two_commits :: index where
  "demo_two_commits = \<lparr>staged = [], commits = [demo_c1, demo_c2_main],
     branches = [(''main'', Some (c_hash demo_c2_main))], current_branch = ''main''\<rparr>"

definition demo_tree_a_edited :: worktree where
  "demo_tree_a_edited = \<lparr>repo_root = ''/repo'', walk = [([], [''a.txt'', ''b.txt''])],
     disk = map_of [(''/repo/a.txt'', File ''x edited''), (''/repo/b.txt'', File ''y'')]\<rparr>"

section \<open>Facts about dictionaries\<close>

lemma map_of_dict_set: "map_of (dict_set d k v) = (map_of d)(k \<mapsto> v)"
  by (induction d k v rule: dict_set.induct) (auto simp: fun_eq_iff)

lemma dict_keys_dict_set: "set (dict_keys (dict_set d k v)) = insert k (set (dict_keys d))"
  by (induction d k v rule: dict_set.induct) (auto simp: dict_keys_def)


lemma dict_get_dict_set:
  "dict_get (dict_set d k v) k' = (if k' = k then Some v else dict_get d k')"
  by (simp add: dict_get_def map_of_dict_set)

lemma dict_mem_dict_set: "dict_mem k' (dict_set d k v) \<longleftrightarrow> k' = k \<or> dict_mem k' d"
  by (auto simp: dict_mem_def dict_keys_dict_set)

lemma dict_mem_get: "dict_mem k d \<longleftrightarrow> dict_get d k \<noteq> None"
  by (simp add: dict_mem_def dict_keys_def dict_get_def map_of_eq_None_iff)

lemma distinct_dict_set:
  "distinct (dict_keys d) \<Longrightarrow> distinct (dict_keys (dict_set d k v))"
proof (induction d k v rule: dict_set.induct)
  case (1 k v)
  then show ?case by (simp add: dict_keys_def)
next
  case (2 k' v' d k v)
  have "set (map fst (dict_set d k v)) = insert k (set (map fst d))"
    using dict_keys_dict_set [of d k v] by (simp add: dict_keys_def)
  with 2 show ?case by (auto simp: dict_keys_def)
qed

section \<open>The sample session is a run of the operations\<close>

lemmas demo_defs = demo_tree_def demo_c1_def demo_c2_def demo_first_staged_def
  demo_committed_def demo_staged_def demo_two_branches_def init_index_def

lemmas op_defs = add_def commit_def branch_def checkout_def new_commit_def path_join_def
  dict_mem_def dict_keys_def dict_get_def dict_get_default_def

lemma demo_first_staged_reached:
  "snd (add demo_tree ''a.txt'' (Some init_index)) = Some demo_first_staged"
  by (simp add: demo_defs op_defs)

lemma demo_committed_reached:
  "snd (commit [] demo_t1 demo_t1 ''first'' (Some demo_first_staged)) = Some demo_committed"
  by (simp add: demo_defs op_defs)

lemma demo_staged_reached:
  "snd (add demo_tree ''b.txt'' (Some demo_committed)) = Some demo_staged"
  by (simp add: demo_defs op_defs)

lemma demo_two_branches_reached:
  "snd (checkout ''main'' (snd (commit [] demo_t2 demo_t2 ''second''
     (snd (add demo_tree ''b.txt'' (snd (checkout ''feature''
       (snd (branch (Some ''feature'') (Some demo_committed))))))))))
   = Some demo_two_branches"
  by (simp add: demo_defs op_defs)

lemma demo_two_commits_reached:
  "snd (commit [] demo_t2 demo_t2 ''second'' (Some demo_staged)) = Some demo_two_commits"
  by (simp add: demo_defs op_defs demo_two_commits_def demo_c2_main_def)

section \<open>The digest and the clock text on known values\<close>

text \<open>
  The digest of \<open>abc\<close> is the test vector of the standard; the hash of the first commit
  of the sample session is what \<open>hashlib\<close> gives for its message and clock reading.
\<close>

lemma replicate_numeral: "replicate (numeral k) x = x # replicate (pred_numeral k) x"
  by (simp add: numeral_eq_Suc)

lemma demo_t1_str: "datetime_str demo_t1 = ''2024-01-02 03:04:05.000006''"
  by (simp add: datetime_str_def isoformat_sep_def zero_pad_def str_nat.simps digit_char_def
      demo_t1_def replicate_numeral)

lemma demo_t2_isoformat: "isoformat demo_t2 = ''2024-01-02T03:09:00.000017''"
  by (simp add: isoformat_def isoformat_sep_def zero_pad_def str_nat.simps digit_char_def
      demo_t2_def replicate_numeral)

lemma sha256_hex_abc:
  "sha256_hex ''abc'' = ''ba7816bf8f01cfea414140de5dae2223b00361a396177a9cb410ff61f20015ad''"
  by code_simp

lemma demo_c1_hash: "c_hash demo_c1 = ''ebbf66fd''"
  by code_simp

section \<open>The current branch stays a branch\<close>

lemma wf_init_index: "wf_index init_index"
  by (simp add: wf_index_def init_index_def dict_mem_def dict_keys_def)

lemma wf_add: "wf_index index \<Longrightarrow> snd (add wt path (Some index)) = Some index' \<Longrightarrow> wf_index index'"
  by (auto simp: add_def wf_index_def Let_def split: if_splits sum.splits option.splits node.splits)

lemma wf_commit:
  "wf_index index \<Longrightarrow> snd (commit config now1 now2 message (Some index)) = Some index' \<Longrightarrow>
   wf_index index'"
  by (auto simp: commit_def wf_index_def Let_def dict_mem_dict_set split: if_splits)

lemma wf_branch: "wf_index index \<Longrightarrow> snd (branch name (Some index)) = Some index' \<Longrightarrow> wf_index index'"
  by (auto simp: branch_def wf_index_def dict_mem_dict_set split: if_splits option.splits)

lemma wf_checkout: "snd (checkout name (Some index)) = Some index' \<Longrightarrow> wf_index index \<Longrightarrow> wf_index index'"
  by (auto simp: checkout_def wf_index_def split: if_splits)

lemma commit_parent_none: "commit_parent c = None"
  by (simp add: commit_parent_def commit_dict_def dict_get_def)

section \<open>The loop of \<open>add(".")\<close>\<close>

lemma stage_all_get:
  "stage_all wt fs st = Inr st' \<Longrightarrow>
   dict_get st' p =
     (if p \<in> set fs then
        (case disk wt (path_join (repo_root wt) p) of
           Some (File content) \<Rightarrow> Some (sha256_hex content)
         | _ \<Rightarrow> dict_get st p)
      else dict_get st p)"
proof (induction fs arbitrary: st)
  case Nil
  then show ?case by simp
next
  case (Cons f fs)
  show ?case
  proof (cases "disk wt (path_join (repo_root wt) f)")
    case None
    with Cons.prems have "stage_all wt fs st = Inr st'" by simp
    from Cons.IH [OF this] None show ?thesis by auto
  next
    case (Some nd)
    show ?thesis
    proof (cases nd)
      case (File content)
      with Some Cons.prems
      have "stage_all wt fs (dict_set st f (sha256_hex content)) = Inr st'" by simp
      from Cons.IH [OF this] Some File show ?thesis
        by (auto simp: dict_get_dict_set split: option.splits node.splits)
    next
      case Directory
      with Some Cons.prems show ?thesis by simp
    qed
  qed
qed



lemma in_untracked:
  "p \<in> set (get_untracked_files wt index) \<longleftrightarrow>
     (\<exists>sub files name. (sub, files) \<in> set (walk wt)
        \<and> \<not> contains_str ''.git'' (walk_root wt sub)
        \<and> name \<in> set files \<and> p = rel_path sub name)
     \<and> \<not> dict_mem p (staged index) \<and> \<not> committed index p"
  by (auto simp: get_untracked_files_def split: if_splits)



lemmas tree_defs = demo_tree_edited_def get_untracked_files_def walk_root_def rel_path_def
  committed_def

section \<open>Commit\<close>

text \<open>
  Claim C1, as the code has it: in a repository whose Index is not empty, \<open>commit\<close>
  succeeds, empties the Index, keeps the current branch, appends the new commit to the list
  of commits, and sets the ref of the current branch (and of no other branch) to the hash
  of the new commit. The new commit records the staged files and the name of the current
  branch; its keys are \<open>hash\<close>, \<open>message\<close>, \<open>author\<close>, \<open>date\<close>, \<open>files\<close> and \<open>branch\<close>, so
  it records no parent.
\<close>

theorem commit_success:
  assumes "staged index \<noteq> []"
  shows "\<exists>text index'.
           commit config now1 now2 message (Some index) = (Inr text, Some index')
         \<and> staged index' = []
         \<and> current_branch index' = current_branch index
         \<and> commits index' = commits index @ [new_commit config now1 now2 message index]
         \<and> dict_get (branches index') (current_branch index)
             = Some (Some (c_hash (new_commit config now1 now2 message index)))
         \<and> (\<forall>b. b \<noteq> current_branch index \<longrightarrow>
               dict_get (branches index') b = dict_get (branches index) b)
         \<and> c_files (new_commit config now1 now2 message index) = staged index
         \<and> c_branch (new_commit config now1 now2 message index) = current_branch index
         \<and> dict_keys (commit_dict (new_commit config now1 now2 message index))
             = [''hash'', ''message'', ''author'', ''date'', ''files'', ''branch'']"
  using assms
  by (simp add: commit_def Let_def dict_get_dict_set new_commit_def commit_dict_def dict_keys_def)

theorem commit_success_witness:
  "staged demo_staged \<noteq> [] \<and>
   snd (commit [] demo_t2 demo_t2 ''second'' (Some demo_staged))
     = Some \<lparr>staged = [],
         commits = [demo_c1, new_commit [] demo_t2 demo_t2 ''second'' demo_staged],
         branches =
           [(''main'', Some (c_hash (new_commit [] demo_t2 demo_t2 ''second'' demo_staged)))],
         current_branch = ''main''\<rparr>"
  using commit_success [of demo_staged "[]" demo_t2 demo_t2 "''second''"]
  by (simp add: demo_staged_def commit_def Let_def)

text \<open>
  Claim C1 as stated fails: \<open>main\<close> points at the first commit and \<open>b.txt\<close> is staged; the
  second commit succeeds and has no parent, where the claim wants the first commit's hash.
\<close>

theorem commit_parent_counterexample:
  "staged demo_staged \<noteq> []
   \<and> head_of demo_staged = Some (c_hash demo_c1)
   \<and> map_option (commit_parent \<circ> last \<circ> commits)
        (snd (commit [] demo_t2 demo_t2 ''second'' (Some demo_staged))) = Some None
   \<and> map_option (commit_parent \<circ> last \<circ> commits)
        (snd (commit [] demo_t2 demo_t2 ''second'' (Some demo_staged)))
       \<noteq> Some (head_of demo_staged)"
  by (simp add: demo_staged_def commit_def Let_def head_of_def dict_get_def commit_parent_none)

text \<open>
  Claim C3, as the code has it: the hash of the commit that a successful \<open>commit\<close> appends
  is the first 8 hexadecimal digits of the SHA-256 digest of the message followed by
  \<open>str\<close> of the clock reading; the files, the author, the branch and the stored date have
  no part in it.
\<close>

theorem commit_hash_formula:
  assumes "staged index \<noteq> []"
  shows "map_option (c_hash \<circ> last \<circ> commits)
           (snd (commit config now1 now2 message (Some index)))
         = Some (take 8 (sha256_hex (message @ datetime_str now1)))"
  using assms by (simp add: commit_def Let_def new_commit_def)

theorem commit_hash_formula_witness:
  "staged demo_first_staged \<noteq> [] \<and>
   map_option (c_hash \<circ> last \<circ> commits)
     (snd (commit demo_other_config demo_t1 demo_t2 ''first'' (Some demo_first_staged)))
   = Some (take 8 (sha256_hex (''first'' @ datetime_str demo_t1)))"
  using commit_hash_formula [of demo_first_staged demo_other_config demo_t1 demo_t2 "''first''"]
  by (simp add: demo_first_staged_def)

text \<open>
  Claim C3 as stated fails: two commits with the same message at the same clock reading
  have the same hash, though their files and their authors differ.
\<close>

theorem commit_hash_counterexample:
  "map_option (c_hash \<circ> last \<circ> commits)
     (snd (commit [] demo_t1 demo_t1 ''first'' (Some demo_first_staged)))
   = map_option (c_hash \<circ> last \<circ> commits)
       (snd (commit demo_other_config demo_t1 demo_t1 ''first'' (Some demo_other_staged)))
   \<and> map_option (c_files \<circ> last \<circ> commits)
       (snd (commit [] demo_t1 demo_t1 ''first'' (Some demo_first_staged)))
     \<noteq> map_option (c_files \<circ> last \<circ> commits)
         (snd (commit demo_other_config demo_t1 demo_t1 ''first'' (Some demo_other_staged)))
   \<and> map_option (c_author \<circ> last \<circ> commits)
       (snd (commit [] demo_t1 demo_t1 ''first'' (Some demo_first_staged)))
     \<noteq> map_option (c_author \<circ> last \<circ> commits)
         (snd (commit demo_other_config demo_t1 demo_t1 ''first'' (Some demo_other_staged)))"
  by (simp add: commit_def Let_def new_commit_def demo_first_staged_def demo_other_staged_def
      demo_other_config_def dict_get_default_def)

text \<open>
  Claim C5: with an empty Index, \<open>commit\<close> returns the nothing-to-commit error and the
  repository (staged entries, commits, branches, current branch) is as it was.
\<close>

theorem commit_nothing:
  assumes "staged index = []"
  shows "commit config now1 now2 message (Some index) = (Inl NothingToCommit, Some index)"
  using assms by (simp add: commit_def)

theorem commit_nothing_witness:
  "staged demo_committed = [] \<and>
   commit [] demo_t2 demo_t2 ''again'' (Some demo_committed)
     = (Inl NothingToCommit, Some demo_committed)"
  using commit_nothing [of demo_committed "[]" demo_t2 demo_t2 "''again''"]
  by (simp add: demo_committed_def)

section \<open>Log and status\<close>

text \<open>
  Claim C2, as the code has it: \<open>log\<close> lists every commit of the repository, whatever
  branch it was made on, the newest first, and its result does not depend on the current
  branch.
\<close>

theorem log_all_commits:
  "fst (log (Some index)) =
     Inr (if commits index = [] then ''No commits yet''
          else join nl (concat (map log_entry (rev (commits index)))))
   \<and> log_commits index = rev (commits index)
   \<and> fst (log (Some (index\<lparr>current_branch := b\<rparr>))) = fst (log (Some index))"
  by (simp add: log_def log_commits_def)

theorem log_all_commits_witness:
  "fst (log (Some demo_two_branches))
     = Inr (join nl (log_entry demo_c2 @ log_entry demo_c1))"
  using log_all_commits [of demo_two_branches]
  by (simp add: demo_two_branches_def)

text \<open>
  Claim C2 as stated fails: on \<open>main\<close>, whose head is the first commit, \<open>log\<close> goes through
  the commit made on \<open>feature\<close> too, and first; following parent links from the head of
  \<open>main\<close> gives the first commit alone.
\<close>

theorem log_counterexample:
  "log_commits demo_two_branches = [demo_c2, demo_c1]
   \<and> spec_log demo_two_branches = [demo_c1]
   \<and> log_commits demo_two_branches \<noteq> spec_log demo_two_branches
   \<and> current_branch demo_two_branches = ''main''
   \<and> c_branch demo_c2 = ''feature''"
  by (simp add: log_commits_def spec_log_def demo_two_branches_def head_of_def dict_get_def
      commit_parent_none demo_c1_def demo_c2_def)

text \<open>
  Claim C10: \<open>status\<close> and \<open>log\<close> return their report and leave the repository (staged
  entries, commits, branches, current branch) as it was.
\<close>

theorem status_log_read_only:
  "snd (status wt repo) = repo \<and> snd (log repo) = repo"
  by (simp add: status_def log_def Let_def split: option.splits)

section \<open>Branches\<close>

text \<open>
  Claim C4: with a non-empty Index and an existing branch name, \<open>checkout\<close> returns the
  uncommitted-changes error and the repository, its current branch included, is as it was.
\<close>

theorem checkout_guard:
  assumes "staged index \<noteq> []" and "dict_mem name (branches index)"
  shows "checkout name (Some index) = (Inl UncommittedChanges, Some index)"
  using assms by (simp add: checkout_def)

theorem checkout_guard_witness:
  "staged demo_staged \<noteq> [] \<and> dict_mem ''main'' (branches demo_staged) \<and>
   checkout ''main'' (Some demo_staged) = (Inl UncommittedChanges, Some demo_staged)"
  using checkout_guard [of demo_staged "''main''"]
  by (simp add: demo_staged_def dict_mem_def dict_keys_def)

text \<open>
  Claim C6: creating a branch under a name that exists returns the branch-exists error and
  leaves the repository as it was; under a new name, in a repository whose current branch
  is one of its branches, it succeeds, the new branch gets the target of the current
  branch (none when the current branch has no commit yet), and nothing else changes.
\<close>

theorem create_branch_ok:
  "(dict_mem n (branches index) \<longrightarrow>
      branch (Some n) (Some index) = (Inl (BranchExists n), Some index))
   \<and> (\<not> dict_mem n (branches index) \<and> wf_index index \<longrightarrow>
      (\<exists>index'. branch (Some n) (Some index)
                   = (Inr (''Branch '' @ sq @ n @ sq @ '' created''), Some index')
         \<and> dict_get (branches index') n = dict_get (branches index) (current_branch index)
         \<and> (\<forall>b. b \<noteq> n \<longrightarrow> dict_get (branches index') b = dict_get (branches index) b)
         \<and> staged index' = staged index \<and> commits index' = commits index
         \<and> current_branch index' = current_branch index))"
  by (auto simp: branch_def wf_index_def dict_mem_get dict_get_dict_set split: option.splits)

theorem create_branch_ok_witness:
  "dict_mem ''main'' (branches init_index)
   \<and> branch (Some ''main'') (Some init_index) = (Inl (BranchExists ''main''), Some init_index)
   \<and> \<not> dict_mem ''feature'' (branches init_index) \<and> wf_index init_index
   \<and> snd (branch (Some ''feature'') (Some init_index))
       = Some (init_index\<lparr>branches := [(''main'', None), (''feature'', None)]\<rparr>)"
  using create_branch_ok [of "''main''" init_index] create_branch_ok [of "''feature''" init_index]
  by (simp add: init_index_def dict_mem_def dict_keys_def wf_index_def branch_def dict_get_def)

section \<open>Staging\<close>

text \<open>
  Claim C8: for a path other than \<open>.\<close> that names nothing on disk, \<open>add\<close> returns the
  path-not-found error as its result, with the text of the source, and the repository, its
  Index included, is as it was.
\<close>

theorem add_missing_path:
  assumes "path \<noteq> ''.''" and "disk wt (path_join (repo_root wt) path) = None"
  shows "add wt path (Some index) = (Inl (PathNotFound path), Some index)
       \<and> output_text (fst (add wt path (Some index)))
           = ''fatal: pathspec '' @ sq @ path @ sq @ '' did not match any files''"
  using assms by (simp add: add_def output_text_def)

theorem add_missing_path_witness:
  "''gone.txt'' \<noteq> ''.'' \<and> disk demo_tree (path_join (repo_root demo_tree) ''gone.txt'') = None
   \<and> add demo_tree ''gone.txt'' (Some demo_committed)
       = (Inl (PathNotFound ''gone.txt''), Some demo_committed)"
  using add_missing_path [of "''gone.txt''" demo_tree demo_committed]
  by (simp add: demo_tree_def path_join_def)



text \<open>
  What \<open>add(".")\<close> changes: the Index only at files that \<open>get_untracked_files\<close> lists (on
  disk outside \<open>.git\<close>, in neither the Index nor the file map of the last commit). A file
  in the file map of the last commit that is not staged stays unstaged, whatever its bytes
  on disk are now. When \<open>add(".")\<close> succeeds, each listed file that is on disk is staged
  under the digest of its bytes. Commits, branches and the current branch do not change.
\<close>

lemma add_all_only_untracked:
  assumes "add wt ''.'' (Some index) = (r, Some index')"
  shows "(\<forall>p. p \<notin> set (get_untracked_files wt index) \<longrightarrow>
            dict_get (staged index') p = dict_get (staged index) p)
       \<and> (\<forall>p. committed index p \<and> \<not> dict_mem p (staged index) \<longrightarrow>
            \<not> dict_mem p (staged index'))
       \<and> (\<forall>p content. (\<exists>text. r = Inr text) \<and> p \<in> set (get_untracked_files wt index)
            \<and> disk wt (path_join (repo_root wt) p) = Some (File content) \<longrightarrow>
            dict_get (staged index') p = Some (sha256_hex content))
       \<and> commits index' = commits index \<and> branches index' = branches index
       \<and> current_branch index' = current_branch index"
proof (cases "stage_all wt (get_untracked_files wt index) (staged index)")
  case (Inl e)
  with assms have "index' = index" "r = Inl e" by (auto simp: add_def Let_def)
  then show ?thesis by simp
next
  case (Inr st')
  with assms have eq: "index' = index\<lparr>staged := st'\<rparr>" by (auto simp: add_def Let_def)
  have unch: "dict_get st' p = dict_get (staged index) p"
    if "p \<notin> set (get_untracked_files wt index)" for p
    using stage_all_get [OF Inr, of p] that by simp
  have comm: "\<not> dict_mem p st'" if "committed index p" "\<not> dict_mem p (staged index)" for p
  proof -
    from that have "p \<notin> set (get_untracked_files wt index)" by (simp add: in_untracked)
    from unch [OF this] that show ?thesis by (simp add: dict_mem_get)
  qed
  have new: "dict_get st' p = Some (sha256_hex content)"
    if "p \<in> set (get_untracked_files wt index)"
       "disk wt (path_join (repo_root wt) p) = Some (File content)" for p content
    using stage_all_get [OF Inr, of p] that by simp
  from unch comm new eq show ?thesis by simp
qed

lemma add_all_last_commit_kept:
  "add demo_tree_edited ''.'' (Some demo_committed)
     = (Inr ''Added 1 files'',
        Some (demo_committed\<lparr>staged := [(''c.txt'', sha256_hex ''z'')]\<rparr>))
   \<and> get_untracked_files demo_tree_edited demo_committed = [''c.txt'']
   \<and> committed demo_committed ''a.txt''"
  by (simp add: demo_defs tree_defs add_def path_join_def dict_mem_def dict_keys_def
      Let_def str_nat.simps digit_char_def)

text \<open>
  Claim C9 on the code: \<open>add(".")\<close> stages the files that \<open>get_untracked_files\<close> lists, and
  that list leaves out only the files in the file map of the last commit. After
  \<open>add a.txt\<close>, \<open>commit first\<close>, \<open>add b.txt\<close>, \<open>commit second\<close> the last commit holds
  \<open>b.txt\<close> alone; \<open>a.txt\<close>, committed in the first commit and edited on disk since, is
  listed as untracked and \<open>add(".")\<close> stages it again.
\<close>

theorem add_all_restages_committed:
  "commits demo_two_commits = [demo_c1, demo_c2_main]
   \<and> dict_mem ''a.txt'' (c_files demo_c1)
   \<and> \<not> committed demo_two_commits ''a.txt''
   \<and> disk demo_tree_a_edited (path_join (repo_root demo_tree_a_edited) ''a.txt'')
       = Some (File ''x edited'')
   \<and> get_untracked_files demo_tree_a_edited demo_two_commits = [''a.txt'']
   \<and> add demo_tree_a_edited ''.'' (Some demo_two_commits)
       = (Inr ''Added 1 files'',
          Some (demo_two_commits\<lparr>staged := [(''a.txt'', sha256_hex ''x edited'')]\<rparr>))"
  by (simp add: demo_two_commits_def demo_c1_def demo_c2_main_def demo_tree_a_edited_def
      get_untracked_files_def walk_root_def rel_path_def committed_def add_def path_join_def
      dict_mem_def dict_keys_def Let_def str_nat.simps digit_char_def)

end
